theory Spec2Isabelle
  imports Main "HOL-Library.AList" "HOL-Library.Char_ord" "HOL-Library.List_Lexorder"
begin

section \<open>Values shared by the packages\<close>

text \<open>
  A Go \<^verbatim>\<open>time.Time\<close> is an opaque instant, and a Go \<^verbatim>\<open>error\<close> is the message it carries.
  Block heights are \<^verbatim>\<open>int64\<close>; the code only copies and stores them, so they are
  integers here. \<^verbatim>\<open>fmt.Errorf("p: %w", err)\<close> puts a prefix before the message.
\<close>

type_synonym time = int

datatype error = Error string

fun Errorf :: "string \<Rightarrow> error \<Rightarrow> error" where
  "Errorf p (Error m) = Error (p @ m)"

section \<open>pkg/types\<close>

record Account =
  acc_ChainName :: string
  acc_Address :: string
  acc_CreatedAt :: time
  acc_UpdatedAt :: time

record Balance =
  bal_ChainName :: string
  bal_Address :: string
  bal_Denom :: string
  bal_Amount :: string
  bal_Height :: int
  bal_UpdatedAt :: time

record Delegation =
  del_ChainName :: string
  del_DelegatorAddress :: string
  del_ValidatorAddress :: string
  del_Shares :: string
  del_Height :: int
  del_UpdatedAt :: time

record ValidatorDescription =
  Moniker :: string
  Identity :: string
  Website :: string
  SecurityContact :: string
  Details :: string

record ValidatorCommission =
  Rate :: string
  MaxRate :: string
  MaxChangeRate :: string

record Validator =
  val_ChainName :: string
  val_OperatorAddress :: string
  val_ConsensusPubkey :: string
  val_Jailed :: bool
  val_Status :: string
  val_Tokens :: string
  val_DelegatorShares :: string
  val_Description :: ValidatorDescription
  val_UnbondingHeight :: int
  val_UnbondingTime :: time
  val_Commission :: ValidatorCommission
  val_MinSelfDelegation :: string
  val_Height :: int
  val_UpdatedAt :: time

record BalanceEvent =
  ev_Timestamp :: time
  ev_ChainName :: string
  ev_Address :: string
  ev_Denom :: string
  ev_Amount :: string
  ev_PreviousAmount :: string
  ev_ChangeType :: string
  ev_Height :: int
  ev_TxHash :: string

record AccountState =
  as_ChainName :: string
  as_Address :: string
  as_Balances :: "Balance list"
  as_Delegations :: "Delegation list"

section \<open>internal/storage: the PostgreSQL store\<close>

text \<open>
  A table is the list of its rows; the unique constraint of the schema
  (\<^verbatim>\<open>UNIQUE(chain_name, address, denom)\<close> for balances,
  \<^verbatim>\<open>UNIQUE(chain_name, operator_address)\<close> for validators) is what
  \<^verbatim>\<open>ON CONFLICT\<close> names. What the engine decides by itself (a lost connection, a
  constraint or a column type that rejects a row) is a field of the database: an answer
  per query and per statement, fixed while one request or one polling cycle runs.
  \<^verbatim>\<open>db_clock\<close> is the engine's \<^verbatim>\<open>NOW()\<close>.
\<close>

datatype pg_query =
    QAccount string string
  | QBalances string string
  | QDelegations string string

datatype pg_stmt =
    SBalance Balance
  | SValidator Validator

datatype query_fault = QueryErr error | ScanErr error | RowsErr error

record pg_db =
  accounts_tbl :: "Account list"
  balances_tbl :: "Balance list"
  delegations_tbl :: "Delegation list"
  validators_tbl :: "Validator list"
  query_fault :: "pg_query \<Rightarrow> query_fault option"
  exec_err :: "pg_stmt \<Rightarrow> error option"
  begin_err :: "error option"
  commit_err :: "error option"
  db_clock :: time

text \<open>
  The statement of \<^verbatim>\<open>UpsertBalance\<close>:
  \<^verbatim>\<open>INSERT INTO balances ... ON CONFLICT (chain_name, address, denom) DO UPDATE SET
  amount = EXCLUDED.amount, height = EXCLUDED.height, updated_at = EXCLUDED.updated_at\<close>.
  The \<^verbatim>\<open>DO UPDATE\<close> has no \<^verbatim>\<open>WHERE\<close>: it compares no heights. On the update path
  the schema's trigger \<^verbatim>\<open>update_updated_at_column\<close> then sets
  \<^verbatim>\<open>NEW.updated_at = NOW()\<close>.
\<close>

definition balance_key :: "Balance \<Rightarrow> string \<times> string \<times> string" where
  "balance_key b = (bal_ChainName b, bal_Address b, bal_Denom b)"

fun upsert_balance_row :: "time \<Rightarrow> Balance \<Rightarrow> Balance list \<Rightarrow> Balance list" where
  "upsert_balance_row now b [] = [b]"
| "upsert_balance_row now b (r # rs) =
     (if balance_key r = balance_key b
      then (r\<lparr>bal_Amount := bal_Amount b, bal_Height := bal_Height b,
               bal_UpdatedAt := bal_UpdatedAt b\<rparr>)\<lparr>bal_UpdatedAt := now\<rparr> # rs
      else r # upsert_balance_row now b rs)"

definition validator_key :: "Validator \<Rightarrow> string \<times> string" where
  "validator_key v = (val_ChainName v, val_OperatorAddress v)"

text \<open>
  The statement of \<^verbatim>\<open>UpsertValidator\<close> sets every column but the two of the key from
  the new row, the height among them, again with no condition.
\<close>

fun upsert_validator_row :: "time \<Rightarrow> Validator \<Rightarrow> Validator list \<Rightarrow> Validator list" where
  "upsert_validator_row now v [] = [v]"
| "upsert_validator_row now v (r # rs) =
     (if validator_key r = validator_key v
      then (v\<lparr>val_ChainName := val_ChainName r, val_OperatorAddress := val_OperatorAddress r\<rparr>)
             \<lparr>val_UpdatedAt := now\<rparr> # rs
      else r # upsert_validator_row now v rs)"

text \<open>The row a natural key holds, as a \<^verbatim>\<open>SELECT ... WHERE\<close> on the key reads it.\<close>

definition stored_balance :: "pg_db \<Rightarrow> string \<times> string \<times> string \<Rightarrow> Balance option" where
  "stored_balance db k = find (\<lambda>r. balance_key r = k) (balances_tbl db)"

definition stored_validator :: "pg_db \<Rightarrow> string \<times> string \<Rightarrow> Validator option" where
  "stored_validator db k = find (\<lambda>r. validator_key r = k) (validators_tbl db)"

subsection \<open>Transactions\<close>

text \<open>
  A \<^verbatim>\<open>PostgresTx\<close> holds the statements it has executed; \<^verbatim>\<open>Commit\<close> applies
  them to the database in order and \<^verbatim>\<open>Rollback\<close> drops them. A transaction writes
  nothing but its own statements, so committing one that executed none changes nothing.
\<close>

record PostgresTx =
  tx_exec_err :: "pg_stmt \<Rightarrow> error option"
  tx_pending :: "pg_stmt list"

definition BeginTx :: "pg_db \<Rightarrow> error + PostgresTx" where
  "BeginTx db =
     (case begin_err db of
        Some e \<Rightarrow> Inl e
      | None \<Rightarrow> Inr \<lparr>tx_exec_err = exec_err db, tx_pending = []\<rparr>)"

definition ExecContext :: "PostgresTx \<Rightarrow> pg_stmt \<Rightarrow> error option \<times> PostgresTx" where
  "ExecContext tx st =
     (case tx_exec_err tx st of
        Some e \<Rightarrow> (Some e, tx)
      | None \<Rightarrow> (None, tx\<lparr>tx_pending := tx_pending tx @ [st]\<rparr>))"

definition UpsertBalance :: "PostgresTx \<Rightarrow> Balance \<Rightarrow> error option \<times> PostgresTx" where
  "UpsertBalance tx balance = ExecContext tx (SBalance balance)"

definition UpsertValidator :: "PostgresTx \<Rightarrow> Validator \<Rightarrow> error option \<times> PostgresTx" where
  "UpsertValidator tx validator = ExecContext tx (SValidator validator)"

fun apply_stmt :: "pg_db \<Rightarrow> pg_stmt \<Rightarrow> pg_db" where
  "apply_stmt db (SBalance b) =
     db\<lparr>balances_tbl := upsert_balance_row (db_clock db) b (balances_tbl db)\<rparr>"
| "apply_stmt db (SValidator v) =
     db\<lparr>validators_tbl := upsert_validator_row (db_clock db) v (validators_tbl db)\<rparr>"

definition Commit :: "PostgresTx \<Rightarrow> pg_db \<Rightarrow> error + pg_db" where
  "Commit tx db =
     (case commit_err db of
        Some e \<Rightarrow> Inl e
      | None \<Rightarrow> Inr (foldl apply_stmt db (tx_pending tx)))"

definition Rollback :: "PostgresTx \<Rightarrow> pg_db \<Rightarrow> pg_db" where
  "Rollback tx db = db"

subsection \<open>Reads\<close>

text \<open>
  \<^verbatim>\<open>QueryRowContext(...).Scan(...)\<close> of \<^verbatim>\<open>GetAccount\<close> ends in a row, in
  \<^verbatim>\<open>sql.ErrNoRows\<close> or in another error.
\<close>

datatype scan_result = ScanRow Account | ErrNoRows | ScanFailed error

fun fault_error :: "query_fault \<Rightarrow> error" where
  "fault_error (QueryErr e) = e"
| "fault_error (ScanErr e) = e"
| "fault_error (RowsErr e) = e"

definition QueryRow_Scan :: "pg_db \<Rightarrow> string \<Rightarrow> string \<Rightarrow> scan_result" where
  "QueryRow_Scan db chainName address =
     (case query_fault db (QAccount chainName address) of
        Some f \<Rightarrow> ScanFailed (fault_error f)
      | None \<Rightarrow>
          (case find (\<lambda>a. acc_ChainName a = chainName \<and> acc_Address a = address)
                  (accounts_tbl db) of
             None \<Rightarrow> ErrNoRows
           | Some a \<Rightarrow> ScanRow a))"

text \<open>The pair \<^verbatim>\<open>(*types.Account, error)\<close>: \<open>Inr None\<close> is \<^verbatim>\<open>(nil, nil)\<close>.\<close>

definition GetAccount :: "pg_db \<Rightarrow> string \<Rightarrow> string \<Rightarrow> error + Account option" where
  "GetAccount db chainName address =
     (case QueryRow_Scan db chainName address of
        ErrNoRows \<Rightarrow> Inr None
      | ScanFailed err \<Rightarrow> Inl (Errorf ''failed to get account: '' err)
      | ScanRow account \<Rightarrow> Inr (Some account))"

text \<open>
  \<^verbatim>\<open>GetBalances\<close> and \<^verbatim>\<open>GetDelegations\<close>: the rows of one chain and address,
  ordered by denomination (by validator address). The order of strings is the
  bytewise one here; the engine's collation may order otherwise.
\<close>

definition GetBalances :: "pg_db \<Rightarrow> string \<Rightarrow> string \<Rightarrow> error + Balance list" where
  "GetBalances db chainName address =
     (case query_fault db (QBalances chainName address) of
        Some (QueryErr err) \<Rightarrow> Inl (Errorf ''failed to query balances: '' err)
      | Some (ScanErr err) \<Rightarrow> Inl (Errorf ''failed to scan balance: '' err)
      | Some (RowsErr err) \<Rightarrow> Inl err
      | None \<Rightarrow>
          Inr (sort_key bal_Denom
                 (filter (\<lambda>r. bal_ChainName r = chainName \<and> bal_Address r = address)
                    (balances_tbl db))))"

definition GetDelegations :: "pg_db \<Rightarrow> string \<Rightarrow> string \<Rightarrow> error + Delegation list" where
  "GetDelegations db chainName delegatorAddress =
     (case query_fault db (QDelegations chainName delegatorAddress) of
        Some (QueryErr err) \<Rightarrow> Inl (Errorf ''failed to query delegations: '' err)
      | Some (ScanErr err) \<Rightarrow> Inl (Errorf ''failed to scan delegation: '' err)
      | Some (RowsErr err) \<Rightarrow> Inl err
      | None \<Rightarrow>
          Inr (sort_key del_ValidatorAddress
                 (filter (\<lambda>r. del_ChainName r = chainName \<and> del_DelegatorAddress r = delegatorAddress)
                    (delegations_tbl db))))"

subsection \<open>The ClickHouse store and the manager\<close>

text \<open>
  \<^verbatim>\<open>GetBalanceHistory(ctx, chainName, address, denom, limit)\<close> selects the events of one
  chain, address and denomination, newest first, at most \<^verbatim>\<open>limit\<close> of them.
\<close>

record ClickHouseStore =
  balance_events :: "BalanceEvent list"
  ch_query_fault :: "query_fault option"

definition GetBalanceHistory ::
  "ClickHouseStore \<Rightarrow> string \<Rightarrow> string \<Rightarrow> string \<Rightarrow> int \<Rightarrow> error + BalanceEvent list" where
  "GetBalanceHistory s chainName address denom limit =
     (case ch_query_fault s of
        Some (QueryErr err) \<Rightarrow> Inl (Errorf ''failed to query balance history: '' err)
      | Some (ScanErr err) \<Rightarrow> Inl (Errorf ''failed to scan balance event: '' err)
      | Some (RowsErr err) \<Rightarrow> Inl err
      | None \<Rightarrow>
          Inr (take (nat limit)
                 (rev (sort_key ev_Timestamp
                    (filter (\<lambda>e. ev_ChainName e = chainName \<and> ev_Address e = address \<and>
                                  ev_Denom e = denom)
                       (balance_events s))))))"

text \<open>\<^verbatim>\<open>Manager.ClickHouse()\<close> may be nil: the store is optional.\<close>

record Manager =
  postgres :: pg_db
  clickhouse :: "ClickHouseStore option"

definition Manager_BeginTx :: "pg_db \<Rightarrow> error + PostgresTx" where
  "Manager_BeginTx db =
     (case BeginTx db of
        Inl err \<Rightarrow> Inl (Errorf ''failed to begin PostgreSQL transaction: '' err)
      | Inr pgTx \<Rightarrow> Inr pgTx)"

section \<open>internal/graphql: the query resolver\<close>

text \<open>
  The resolver reads through its storage manager. Its logger calls change neither the
  result nor the store and are left out.
\<close>

definition Account :: "Manager \<Rightarrow> string \<Rightarrow> string \<Rightarrow> error + AccountState" where
  "Account r address chain =
     (case GetBalances (postgres r) chain address of
        Inl err \<Rightarrow> Inl (Errorf ''failed to get balances: '' err)
      | Inr balances \<Rightarrow>
          (case GetDelegations (postgres r) chain address of
             Inl err \<Rightarrow> Inl (Errorf ''failed to get delegations: '' err)
           | Inr delegations \<Rightarrow>
               Inr \<lparr>as_ChainName = chain, as_Address = address,
                    as_Balances = balances, as_Delegations = delegations\<rparr>))"

record ChainAccountState =
  cas_ChainName :: string
  cas_AccountState :: AccountState

text \<open>
  A \<^verbatim>\<open>map[string]string\<close> is the list of its entries, each key once, in the order the
  keys were first written. \<^verbatim>\<open>TotalRewards\<close> is a \<^verbatim>\<open>float64\<close> to which the code adds
  \<^verbatim>\<open>0.05\<close> once per entry of the delegated totals; the model keeps the number of
  additions.
\<close>

type_synonym DenomAmount = "string \<times> string"

record CrossChainTotals =
  TotalBalance :: "DenomAmount list"
  TotalDelegated :: "DenomAmount list"
  TotalUnbonding :: "DenomAmount list"
  TotalRewards :: nat

record CrossChainAccountState =
  cc_Address :: string
  cc_Chains :: "ChainAccountState list"
  cc_Totals :: CrossChainTotals

text \<open>
  The two inner loops of \<^verbatim>\<open>CrossChainAccount\<close>. Where the denomination already has a
  total, the code stores \<^verbatim>\<open>current + "+" + balance.Amount\<close>: the two texts joined by a
  plus sign (the source marks the line \<^verbatim>\<open>TODO: Add proper decimal arithmetic\<close>).
\<close>

fun aggregate_balances :: "Balance list \<Rightarrow> DenomAmount list \<Rightarrow> DenomAmount list" where
  "aggregate_balances [] totalBalanceMap = totalBalanceMap"
| "aggregate_balances (balance # rest) totalBalanceMap =
     aggregate_balances rest
       (case map_of totalBalanceMap (bal_Denom balance) of
          Some current \<Rightarrow>
            AList.update (bal_Denom balance) (current @ ''+'' @ bal_Amount balance) totalBalanceMap
        | None \<Rightarrow> AList.update (bal_Denom balance) (bal_Amount balance) totalBalanceMap)"

fun aggregate_delegations :: "Delegation list \<Rightarrow> DenomAmount list \<Rightarrow> DenomAmount list" where
  "aggregate_delegations [] totalDelegatedMap = totalDelegatedMap"
| "aggregate_delegations (delegation # rest) totalDelegatedMap =
     aggregate_delegations rest
       (let denom = ''stake'' in
        case map_of totalDelegatedMap denom of
          Some current \<Rightarrow> AList.update denom (current @ ''+'' @ del_Shares delegation) totalDelegatedMap
        | None \<Rightarrow> AList.update denom (del_Shares delegation) totalDelegatedMap)"

record aggregation =
  chainStates :: "ChainAccountState list"
  totalBalanceMap :: "DenomAmount list"
  totalDelegatedMap :: "DenomAmount list"

text \<open>
  The loop over the chains. A chain whose \<^verbatim>\<open>Account\<close> fails is logged and skipped
  (\<^verbatim>\<open>continue\<close>); nothing of the failure reaches the result.
\<close>

fun aggregate_chains :: "Manager \<Rightarrow> string \<Rightarrow> string list \<Rightarrow> aggregation \<Rightarrow> aggregation" where
  "aggregate_chains r address [] acc = acc"
| "aggregate_chains r address (chainName # rest) acc =
     (case Account r address chainName of
        Inl err \<Rightarrow> aggregate_chains r address rest acc
      | Inr accountState \<Rightarrow>
          aggregate_chains r address rest
            \<lparr>chainStates = chainStates acc @
                 [\<lparr>cas_ChainName = chainName, cas_AccountState = accountState\<rparr>],
             totalBalanceMap = aggregate_balances (as_Balances accountState) (totalBalanceMap acc),
             totalDelegatedMap =
               aggregate_delegations (as_Delegations accountState) (totalDelegatedMap acc)\<rparr>)"

text \<open>
  What \<^verbatim>\<open>CrossChainAccount\<close> builds from the loop's result. The two slices list the
  maps' entries; Go leaves the order of a map's entries open, the model lists them in
  the order of first writing.
\<close>

definition finish_aggregation :: "string \<Rightarrow> aggregation \<Rightarrow> CrossChainAccountState" where
  "finish_aggregation address acc =
     \<lparr>cc_Address = address,
      cc_Chains = chainStates acc,
      cc_Totals = \<lparr>TotalBalance = totalBalanceMap acc,
                   TotalDelegated = totalDelegatedMap acc,
                   TotalUnbonding = [],
                   TotalRewards = length (totalDelegatedMap acc)\<rparr>\<rparr>"

definition aggregate_over :: "Manager \<Rightarrow> string \<Rightarrow> string list \<Rightarrow> CrossChainAccountState" where
  "aggregate_over r address chainNames =
     finish_aggregation address
       (aggregate_chains r address chainNames
          \<lparr>chainStates = [], totalBalanceMap = [], totalDelegatedMap = []\<rparr>)"

text \<open>The chain list is a local constant of the resolver; its error result is always nil.\<close>

definition CrossChainAccount :: "Manager \<Rightarrow> string \<Rightarrow> error + CrossChainAccountState" where
  "CrossChainAccount r address =
     (let chainNames = [''cosmoshub'', ''osmosis'']
      in Inr (aggregate_over r address chainNames))"

text \<open>
  A Go call either returns or panics. \<^verbatim>\<open>BalanceHistory\<close> first returns an error when
  there is no ClickHouse store, then computes the limit, then evaluates the arguments
  of \<^verbatim>\<open>GetBalanceHistory(ctx, address, *denom, "cosmos", limitVal)\<close>, \<^verbatim>\<open>*denom\<close> among
  them with no nil check before it.
\<close>

datatype 'a outcome = Returns 'a | Panics string

definition BalanceHistory ::
  "Manager \<Rightarrow> string \<Rightarrow> string \<Rightarrow> string option \<Rightarrow> int option \<Rightarrow>
     (error + BalanceEvent list) outcome" where
  "BalanceHistory r address chain denom limit =
     (case clickhouse r of
        None \<Rightarrow> Returns (Inl (Error ''ClickHouse not available for analytics queries''))
      | Some store \<Rightarrow>
          (let limitVal = (case limit of
                             None \<Rightarrow> 100
                           | Some l \<Rightarrow> if l > 0 then l else 100)
           in case denom of
                None \<Rightarrow> Panics ''runtime error: invalid memory address or nil pointer dereference''
              | Some d \<Rightarrow>
                  (case GetBalanceHistory store address d ''cosmos'' limitVal of
                     Inl err \<Rightarrow> Returns (Inl (Errorf ''failed to get balance history: '' err))
                   | Inr events \<Rightarrow> Returns (Inr events))))"

section \<open>The REST handler of the cross-chain account\<close>

text \<open>
  \<^verbatim>\<open>getCrossChainAccount\<close> answers 200 with a state whose maps are all empty, whatever
  the store holds.
\<close>

record RestCrossChainTotals =
  rest_TotalBalance :: "DenomAmount list"
  rest_TotalDelegated :: "DenomAmount list"
  rest_TotalUnbonding :: "DenomAmount list"
  rest_TotalRewards :: "DenomAmount list"

record RestCrossChainAccountState =
  rest_Address :: string
  rest_Chains :: "(string \<times> AccountState) list"
  rest_Totals :: RestCrossChainTotals

definition getCrossChainAccount :: "Manager \<Rightarrow> string \<Rightarrow> nat \<times> RestCrossChainAccountState" where
  "getCrossChainAccount s address =
     (200,
      \<lparr>rest_Address = address,
       rest_Chains = [],
       rest_Totals = \<lparr>rest_TotalBalance = [], rest_TotalDelegated = [],
                      rest_TotalUnbonding = [], rest_TotalRewards = []\<rparr>\<rparr>)"

section \<open>pkg/cosmos: the chain client\<close>

text \<open>
  The gRPC answers of the chain are fields of the client, fixed while one polling cycle
  runs. A validator of the staking module is kept with the fields the ingester reads,
  the ones it renders with \<^verbatim>\<open>String()\<close> already as text.
\<close>

record sdk_Validator =
  sdk_OperatorAddress :: string
  sdk_ConsensusPubkey :: string
  sdk_Jailed :: bool
  sdk_Status :: string
  sdk_Tokens :: string
  sdk_DelegatorShares :: string
  sdk_Description :: ValidatorDescription
  sdk_UnbondingHeight :: int
  sdk_UnbondingTime :: time
  sdk_Commission :: ValidatorCommission
  sdk_MinSelfDelegation :: string

record Client =
  stakingClient_Validators :: "string \<Rightarrow> error + sdk_Validator list"
  bankClient_TotalSupply :: "error + string"
  govClient_Proposals :: "error + string list"

definition GetValidators :: "Client \<Rightarrow> string \<Rightarrow> error + sdk_Validator list" where
  "GetValidators c status =
     (case stakingClient_Validators c status of
        Inl err \<Rightarrow> Inl (Errorf ''failed to get validators: '' err)
      | Inr validators \<Rightarrow> Inr validators)"

definition GetTotalSupply :: "Client \<Rightarrow> error + string" where
  "GetTotalSupply c =
     (case bankClient_TotalSupply c of
        Inl err \<Rightarrow> Inl (Errorf ''failed to get total supply: '' err)
      | Inr supply \<Rightarrow> Inr supply)"

definition GetProposals :: "Client \<Rightarrow> error + string list" where
  "GetProposals c =
     (case govClient_Proposals c of
        Inl err \<Rightarrow> Inl (Errorf ''failed to get proposals: '' err)
      | Inr proposals \<Rightarrow> Inr proposals)"

definition GetLatestHeight :: "Client \<Rightarrow> error + int" where
  "GetLatestHeight c =
     (case GetValidators c '''' of
        Inl err \<Rightarrow> Inl (Errorf ''failed to get latest height: '' err)
      | Inr validators \<Rightarrow>
          if length validators = 0 then Inl (Error ''no validators found'')
          else Inr (sdk_UnbondingHeight (validators ! 0)))"

section \<open>internal/ingester: the polling worker of one chain\<close>

record ChainWorker =
  chainName :: string
  Modules :: "string list"
  client :: Client

text \<open>
  Every module function takes the worker, the height and the store, and returns its
  error with the store as it leaves it. None of them takes the transaction of
  \<^verbatim>\<open>ingestChainState\<close>. The worker's logger calls change neither the store nor the
  result and are left out.
\<close>

definition ingestBankModule :: "ChainWorker \<Rightarrow> int \<Rightarrow> pg_db \<Rightarrow> error option \<times> pg_db" where
  "ingestBankModule w height db =
     (case GetTotalSupply (client w) of
        Inl err \<Rightarrow> (Some (Errorf ''failed to get total supply: '' err), db)
      | Inr supply \<Rightarrow> (None, db))"

definition to_Validator :: "ChainWorker \<Rightarrow> int \<Rightarrow> time \<Rightarrow> sdk_Validator \<Rightarrow> Validator" where
  "to_Validator w height now val =
     \<lparr>val_ChainName = chainName w,
      val_OperatorAddress = sdk_OperatorAddress val,
      val_ConsensusPubkey = sdk_ConsensusPubkey val,
      val_Jailed = sdk_Jailed val,
      val_Status = sdk_Status val,
      val_Tokens = sdk_Tokens val,
      val_DelegatorShares = sdk_DelegatorShares val,
      val_Description = sdk_Description val,
      val_UnbondingHeight = sdk_UnbondingHeight val,
      val_UnbondingTime = sdk_UnbondingTime val,
      val_Commission = sdk_Commission val,
      val_MinSelfDelegation = sdk_MinSelfDelegation val,
      val_Height = height,
      val_UpdatedAt = now\<rparr>"

fun upsert_validators ::
  "ChainWorker \<Rightarrow> int \<Rightarrow> time \<Rightarrow> sdk_Validator list \<Rightarrow> PostgresTx \<Rightarrow> error + PostgresTx" where
  "upsert_validators w height now [] tx = Inr tx"
| "upsert_validators w height now (val # rest) tx =
     (case UpsertValidator tx (to_Validator w height now val) of
        (Some err, tx') \<Rightarrow> Inl (Errorf ''failed to upsert validator: '' err)
      | (None, tx') \<Rightarrow> upsert_validators w height now rest tx')"

text \<open>
  \<^verbatim>\<open>ingestStakingModule\<close> begins a transaction of its own, upserts every validator in
  it and commits it before it returns; \<open>now\<close> is its reading of \<^verbatim>\<open>time.Now()\<close>.
\<close>

definition ingestStakingModule ::
  "ChainWorker \<Rightarrow> int \<Rightarrow> time \<Rightarrow> pg_db \<Rightarrow> error option \<times> pg_db" where
  "ingestStakingModule w height now db =
     (case GetValidators (client w) '''' of
        Inl err \<Rightarrow> (Some (Errorf ''failed to get validators: '' err), db)
      | Inr validators \<Rightarrow>
          (case Manager_BeginTx db of
             Inl err \<Rightarrow> (Some (Errorf ''failed to begin transaction: '' err), db)
           | Inr tx \<Rightarrow>
               (case upsert_validators w height now validators tx of
                  Inl err \<Rightarrow> (Some err, Rollback tx db)
                | Inr tx' \<Rightarrow>
                    (case Commit tx' db of
                       Inl err \<Rightarrow>
                         (Some (Errorf ''failed to commit transaction: '' err), Rollback tx' db)
                     | Inr db' \<Rightarrow> (None, db')))))"

definition ingestDistributionModule :: "ChainWorker \<Rightarrow> int \<Rightarrow> pg_db \<Rightarrow> error option \<times> pg_db" where
  "ingestDistributionModule w height db = (None, db)"

definition ingestGovernanceModule :: "ChainWorker \<Rightarrow> int \<Rightarrow> pg_db \<Rightarrow> error option \<times> pg_db" where
  "ingestGovernanceModule w height db =
     (case GetProposals (client w) of
        Inl err \<Rightarrow> (Some (Errorf ''failed to get proposals: '' err), db)
      | Inr proposals \<Rightarrow> (None, db))"

definition ingestMintModule :: "ChainWorker \<Rightarrow> int \<Rightarrow> pg_db \<Rightarrow> error option \<times> pg_db" where
  "ingestMintModule w height db = (None, db)"

definition ingestSlashingModule :: "ChainWorker \<Rightarrow> int \<Rightarrow> pg_db \<Rightarrow> error option \<times> pg_db" where
  "ingestSlashingModule w height db = (None, db)"

text \<open>The \<^verbatim>\<open>switch module\<close> of the loop; an unknown module is skipped.\<close>

definition ingest_module ::
  "ChainWorker \<Rightarrow> int \<Rightarrow> time \<Rightarrow> string \<Rightarrow> pg_db \<Rightarrow> error option \<times> pg_db" where
  "ingest_module w height now module db =
     (if module = ''bank'' then ingestBankModule w height db
      else if module = ''staking'' then ingestStakingModule w height now db
      else if module = ''distribution'' then ingestDistributionModule w height db
      else if module = ''governance'' then ingestGovernanceModule w height db
      else if module = ''mint'' then ingestMintModule w height db
      else if module = ''slashing'' then ingestSlashingModule w height db
      else (None, db))"

text \<open>The loop over the modules: the first error is returned at once.\<close>

fun ingest_modules ::
  "ChainWorker \<Rightarrow> int \<Rightarrow> time \<Rightarrow> string list \<Rightarrow> pg_db \<Rightarrow> error option \<times> pg_db" where
  "ingest_modules w height now [] db = (None, db)"
| "ingest_modules w height now (module # rest) db =
     (case ingest_module w height now module db of
        (Some err, db') \<Rightarrow> (Some err, db')
      | (None, db') \<Rightarrow> ingest_modules w height now rest db')"

text \<open>
  \<^verbatim>\<open>ingestChainState\<close>: the height, a transaction \<open>tx\<close> with its deferred
  \<^verbatim>\<open>Rollback\<close>, the modules, the \<^verbatim>\<open>Commit\<close> of \<open>tx\<close>. No statement is ever executed
  in \<open>tx\<close>.
\<close>

definition ingestChainState :: "ChainWorker \<Rightarrow> time \<Rightarrow> pg_db \<Rightarrow> error option \<times> pg_db" where
  "ingestChainState w now db =
     (case GetLatestHeight (client w) of
        Inl err \<Rightarrow> (Some (Errorf ''failed to get latest height: '' err), db)
      | Inr height \<Rightarrow>
          (case Manager_BeginTx db of
             Inl err \<Rightarrow> (Some (Errorf ''failed to begin transaction: '' err), db)
           | Inr tx \<Rightarrow>
               (case ingest_modules w height now (Modules w) db of
                  (Some err, db') \<Rightarrow> (Some err, Rollback tx db')
                | (None, db') \<Rightarrow>
                    (case Commit tx db' of
                       Inl err \<Rightarrow>
                         (Some (Errorf ''failed to commit transaction: '' err), Rollback tx db')
                     | Inr db'' \<Rightarrow> (None, db'')))))"

section \<open>internal/listener: the push listener\<close>

text \<open>
  A buffered Go channel is its buffer and its capacity. A \<^verbatim>\<open>select\<close> with a
  \<^verbatim>\<open>default\<close> branch sends if there is room and takes the default otherwise; a receive
  takes the oldest element.
\<close>

record 'a chan =
  chan_buf :: "'a list"
  chan_cap :: nat

definition make_chan :: "nat \<Rightarrow> 'a chan" where
  "make_chan n = \<lparr>chan_buf = [], chan_cap = n\<rparr>"

definition try_send :: "'a chan \<Rightarrow> 'a \<Rightarrow> bool \<times> 'a chan" where
  "try_send c x =
     (if length (chan_buf c) < chan_cap c
      then (True, c\<lparr>chan_buf := chan_buf c @ [x]\<rparr>)
      else (False, c))"

definition try_recv :: "'a chan \<Rightarrow> ('a \<times> 'a chan) option" where
  "try_recv c =
     (case chan_buf c of
        [] \<Rightarrow> None
      | x # rest \<Rightarrow> Some (x, c\<lparr>chan_buf := rest\<rparr>))"

record StateChange =
  sc_ChainName :: string
  sc_StoreKey :: string
  sc_Key :: string
  sc_Value :: string
  sc_Delete :: bool
  sc_Height :: int
  sc_Timestamp :: time

text \<open>
  The log keeps the entries written at warning and at error level, with their zap
  fields; they are all the code reports of a change it drops or fails to process.
\<close>

datatype log_level = WarnLevel | ErrorLevel

datatype log_field = String string string | Int64 string int | ZapError error

datatype log_entry = Log log_level string "log_field list"

record ListenerWorker =
  lw_chainName :: string
  lw_changes :: "StateChange chan"

record StateListener =
  stateChanges :: "StateChange chan"
  workers :: "(string \<times> ListenerWorker) list"
  sl_storage :: pg_db
  sl_log :: "log_entry list"

definition NewStateListener :: "pg_db \<Rightarrow> StateListener" where
  "NewStateListener st =
     \<lparr>stateChanges = make_chan 10000, workers = [], sl_storage = st, sl_log = []\<rparr>"

definition createWorker :: "string \<Rightarrow> ListenerWorker" where
  "createWorker name = \<lparr>lw_chainName = name, lw_changes = make_chan 1000\<rparr>"

text \<open>
  \<^verbatim>\<open>OnStateChange\<close> returns nothing. \<open>now\<close> is its reading of \<^verbatim>\<open>time.Now()\<close>.
\<close>

definition OnStateChange ::
  "StateListener \<Rightarrow> string \<Rightarrow> string \<Rightarrow> string \<Rightarrow> string \<Rightarrow> bool \<Rightarrow> int \<Rightarrow> time \<Rightarrow> StateListener" where
  "OnStateChange sl chain storeKey key val del height now =
     (let change = \<lparr>sc_ChainName = chain, sc_StoreKey = storeKey, sc_Key = key, sc_Value = val,
                     sc_Delete = del, sc_Height = height, sc_Timestamp = now\<rparr>
      in case try_send (stateChanges sl) change of
           (True, c) \<Rightarrow> sl\<lparr>stateChanges := c\<rparr>
         | (False, c) \<Rightarrow>
             sl\<lparr>sl_log := sl_log sl @
                   [Log WarnLevel ''State change channel full, dropping change''
                      [String ''chain'' chain, String ''store'' storeKey, Int64 ''height'' height]]\<rparr>)"

text \<open>
  One turn of \<^verbatim>\<open>processStateChanges\<close> for a change it has received: the change goes to
  the channel of its chain's worker, again without blocking.
\<close>

definition route_change :: "StateListener \<Rightarrow> StateChange \<Rightarrow> StateListener" where
  "route_change sl change =
     (case map_of (workers sl) (sc_ChainName change) of
        None \<Rightarrow>
          sl\<lparr>sl_log := sl_log sl @
                [Log WarnLevel ''No worker for chain'' [String ''chain'' (sc_ChainName change)]]\<rparr>
      | Some worker \<Rightarrow>
          (case try_send (lw_changes worker) change of
             (True, c) \<Rightarrow>
               sl\<lparr>workers := AList.update (sc_ChainName change) (worker\<lparr>lw_changes := c\<rparr>)
                                (workers sl)\<rparr>
           | (False, c) \<Rightarrow>
               sl\<lparr>sl_log := sl_log sl @
                     [Log WarnLevel ''Worker channel full''
                        [String ''chain'' (sc_ChainName change)]]\<rparr>))"

definition processStateChanges_step :: "StateListener \<Rightarrow> StateListener" where
  "processStateChanges_step sl =
     (case try_recv (stateChanges sl) of
        None \<Rightarrow> sl
      | Some (change, c) \<Rightarrow> route_change (sl\<lparr>stateChanges := c\<rparr>) change)"

subsection \<open>The worker of one chain\<close>

text \<open>
  \<^verbatim>\<open>processBalanceChange\<close> splits no key: \<^verbatim>\<open>parts := []string{}\<close>, so the length check
  that follows always fails. The branch behind it upserts the balance outside any
  transaction; the publishing of the event and its insertion into ClickHouse that come
  after the upsert only log their failures and are left out.
\<close>

definition processBalanceChange ::
  "StateChange \<Rightarrow> string \<Rightarrow> StateListener \<Rightarrow> error option \<times> StateListener" where
  "processBalanceChange change keyRemainder sl =
     (let parts = ([] :: string list)
      in if length parts < 2 then (Some (Error ''invalid balance key format''), sl)
         else
           (let address = parts ! 0;
                denom = parts ! 1;
                amount = (if sc_Delete change then ''0'' else sc_Value change);
                balance = \<lparr>bal_ChainName = sc_ChainName change, bal_Address = address,
                            bal_Denom = denom, bal_Amount = amount,
                            bal_Height = sc_Height change, bal_UpdatedAt = sc_Timestamp change\<rparr>
            in case exec_err (sl_storage sl) (SBalance balance) of
                 Some err \<Rightarrow> (Some (Errorf ''failed to upsert balance: '' err), sl)
               | None \<Rightarrow> (None, sl\<lparr>sl_storage := apply_stmt (sl_storage sl) (SBalance balance)\<rparr>)))"

definition processSupplyChange ::
  "StateChange \<Rightarrow> string \<Rightarrow> StateListener \<Rightarrow> error option \<times> StateListener" where
  "processSupplyChange change denom sl = (None, sl)"

definition processBankStateChange ::
  "StateChange \<Rightarrow> StateListener \<Rightarrow> error option \<times> StateListener" where
  "processBankStateChange change sl =
     (let keyStr = sc_Key change
      in if length keyStr > 9 \<and> take 9 keyStr = ''balances/''
         then processBalanceChange change (drop 9 keyStr) sl
         else if length keyStr > 7 \<and> take 7 keyStr = ''supply/''
         then processSupplyChange change (drop 7 keyStr) sl
         else (None, sl))"

text \<open>
  The staking, distribution, governance, mint and slashing handlers only write a debug
  line and return nil.
\<close>

definition processStateChange ::
  "StateChange \<Rightarrow> StateListener \<Rightarrow> error option \<times> StateListener" where
  "processStateChange change sl =
     (if sc_StoreKey change = ''bank'' then processBankStateChange change sl
      else if sc_StoreKey change = ''staking'' then (None, sl)
      else if sc_StoreKey change = ''distribution'' then (None, sl)
      else if sc_StoreKey change = ''gov'' then (None, sl)
      else if sc_StoreKey change = ''mint'' then (None, sl)
      else if sc_StoreKey change = ''slashing'' then (None, sl)
      else (None, sl))"

text \<open>
  \<^verbatim>\<open>ListenerWorker.start\<close>, for the changes the worker receives before its context is
  cancelled: an error of \<^verbatim>\<open>processStateChange\<close> is logged and the loop goes on.
\<close>

definition failed_entry :: "StateChange \<Rightarrow> error \<Rightarrow> log_entry" where
  "failed_entry change err =
     Log ErrorLevel ''Failed to process state change''
       [String ''store'' (sc_StoreKey change), Int64 ''height'' (sc_Height change), ZapError err]"

fun start :: "StateChange list \<Rightarrow> StateListener \<Rightarrow> StateListener" where
  "start [] sl = sl"
| "start (change # rest) sl =
     (case processStateChange change sl of
        (Some err, sl') \<Rightarrow> start rest (sl'\<lparr>sl_log := sl_log sl' @ [failed_entry change err]\<rparr>)
      | (None, sl') \<Rightarrow> start rest sl')"

section \<open>Commits, and the data of the examples\<close>

text \<open>
  Committing one record: a transaction that upserts the record, with \<^verbatim>\<open>UpsertBalance\<close>
  or \<^verbatim>\<open>UpsertValidator\<close>, and commits. \<open>commit_seq\<close> commits records one after the
  other, each in a transaction of its own.
\<close>

fun upsert :: "PostgresTx \<Rightarrow> pg_stmt \<Rightarrow> error option \<times> PostgresTx" where
  "upsert tx (SBalance balance) = UpsertBalance tx balance"
| "upsert tx (SValidator validator) = UpsertValidator tx validator"

definition commit_one :: "pg_db \<Rightarrow> pg_stmt \<Rightarrow> error + pg_db" where
  "commit_one db st =
     (case BeginTx db of
        Inl err \<Rightarrow> Inl err
      | Inr tx \<Rightarrow>
          (case upsert tx st of
             (Some err, tx') \<Rightarrow> Inl err
           | (None, tx') \<Rightarrow> Commit tx' db))"

fun commit_seq :: "pg_db \<Rightarrow> pg_stmt list \<Rightarrow> error + pg_db" where
  "commit_seq db [] = Inr db"
| "commit_seq db (st # rest) =
     (case commit_one db st of
        Inl err \<Rightarrow> Inl err
      | Inr db' \<Rightarrow> commit_seq db' rest)"

text \<open>Whether the resolver could read a chain's account state.\<close>

definition fetched :: "Manager \<Rightarrow> string \<Rightarrow> string \<Rightarrow> bool" where
  "fetched r address chain =
     (case Account r address chain of Inr st \<Rightarrow> True | Inl err \<Rightarrow> False)"

text \<open>
  An empty database that answers every query and accepts every statement; the same
  with every query timing out; a balance of \<^verbatim>\<open>addrX\<close> in \<^verbatim>\<open>uatom\<close>; the store of the
  spec's scenario (\<^verbatim>\<open>cosmoshub\<close> holds 1000000 at height 101, \<^verbatim>\<open>osmosis\<close> 2500000 at
  height 50), and the store in which the two chains have exchanged these amounts; an
  account and a validator row.
\<close>

definition empty_db :: pg_db where
  "empty_db =
     \<lparr>accounts_tbl = [], balances_tbl = [], delegations_tbl = [], validators_tbl = [],
      query_fault = (\<lambda>q. None), exec_err = (\<lambda>s. None), begin_err = None, commit_err = None,
      db_clock = 0\<rparr>"

definition unreachable_db :: pg_db where
  "unreachable_db = empty_db\<lparr>query_fault := (\<lambda>q. Some (QueryErr (Error ''timeout'')))\<rparr>"

definition a_balance :: "string \<Rightarrow> string \<Rightarrow> int \<Rightarrow> Balance" where
  "a_balance chain amount height =
     \<lparr>bal_ChainName = chain, bal_Address = ''addrX'', bal_Denom = ''uatom'',
      bal_Amount = amount, bal_Height = height, bal_UpdatedAt = 0\<rparr>"

definition scenario_db :: pg_db where
  "scenario_db =
     (case commit_seq empty_db
             [SBalance (a_balance ''cosmoshub'' ''1000000'' 101),
              SBalance (a_balance ''osmosis'' ''2500000'' 50)] of
        Inr db \<Rightarrow> db
      | Inl err \<Rightarrow> empty_db)"


definition an_account :: Account where
  "an_account = \<lparr>acc_ChainName = ''cosmoshub'', acc_Address = ''addrY'',
                  acc_CreatedAt = 0, acc_UpdatedAt = 0\<rparr>"

definition a_validator :: "string \<Rightarrow> int \<Rightarrow> Validator" where
  "a_validator tokens height =
     \<lparr>val_ChainName = ''cosmoshub'', val_OperatorAddress = ''cosmosvaloper1'',
      val_ConsensusPubkey = ''pk'', val_Jailed = False, val_Status = ''BOND_STATUS_BONDED'',
      val_Tokens = tokens, val_DelegatorShares = tokens,
      val_Description = \<lparr>Moniker = ''m'', Identity = [], Website = [],
                          SecurityContact = [], Details = []\<rparr>,
      val_UnbondingHeight = 0, val_UnbondingTime = 0,
      val_Commission = \<lparr>Rate = ''0.1'', MaxRate = ''0.2'', MaxChangeRate = ''0.01''\<rparr>,
      val_MinSelfDelegation = ''1'', val_Height = height, val_UpdatedAt = 0\<rparr>"

text \<open>
  A chain that reports the given validators, each with unbonding height 42, and the
  given answer to the proposals query; a worker of \<^verbatim>\<open>cosmoshub\<close> on it; a database
  that rejects every row of the validator \<^verbatim>\<open>cosmosvaloper1\<close>.
\<close>

definition a_sdk_validator :: "string \<Rightarrow> sdk_Validator" where
  "a_sdk_validator operator =
     \<lparr>sdk_OperatorAddress = operator, sdk_ConsensusPubkey = ''pk'', sdk_Jailed = False,
      sdk_Status = ''BOND_STATUS_BONDED'', sdk_Tokens = ''70'', sdk_DelegatorShares = ''70'',
      sdk_Description = \<lparr>Moniker = ''m'', Identity = [], Website = [],
                          SecurityContact = [], Details = []\<rparr>,
      sdk_UnbondingHeight = 42, sdk_UnbondingTime = 0,
      sdk_Commission = \<lparr>Rate = ''0.1'', MaxRate = ''0.2'', MaxChangeRate = ''0.01''\<rparr>,
      sdk_MinSelfDelegation = ''1''\<rparr>"

definition a_client :: "sdk_Validator list \<Rightarrow> error + string list \<Rightarrow> Client" where
  "a_client vals proposals =
     \<lparr>stakingClient_Validators = (\<lambda>status. Inr vals),
      bankClient_TotalSupply = Inr ''1000uatom'',
      govClient_Proposals = proposals\<rparr>"

definition a_worker ::
  "string list \<Rightarrow> sdk_Validator list \<Rightarrow> error + string list \<Rightarrow> ChainWorker" where
  "a_worker modules vals proposals =
     \<lparr>chainName = ''cosmoshub'', Modules = modules, client = a_client vals proposals\<rparr>"

definition rejecting_db :: pg_db where
  "rejecting_db =
     empty_db\<lparr>exec_err :=
       (\<lambda>st. case st of
                SValidator v \<Rightarrow>
                  if val_OperatorAddress v = ''cosmosvaloper1'' then Some (Error ''rejected'')
                  else None
              | SBalance b \<Rightarrow> None)\<rparr>"

text \<open>Every validator of the list has a stored row of the worker's chain at height \<open>h\<close>.\<close>

definition recorded_at :: "ChainWorker \<Rightarrow> int \<Rightarrow> sdk_Validator list \<Rightarrow> pg_db \<Rightarrow> bool" where
  "recorded_at w h vals db =
     (\<forall>val \<in> set vals. \<exists>row. stored_validator db (chainName w, sdk_OperatorAddress val) = Some row \<and>
                              val_Height row = h)"

text \<open>
  The changes \<^verbatim>\<open>processBankStateChange\<close> hands to \<^verbatim>\<open>processBalanceChange\<close>; one such
  change; a listener whose queue and whose \<^verbatim>\<open>cosmoshub\<close> worker's queue are both full.
\<close>

definition balance_change :: "StateChange \<Rightarrow> bool" where
  "balance_change c =
     (sc_StoreKey c = ''bank'' \<and> length (sc_Key c) > 9 \<and> take 9 (sc_Key c) = ''balances/'')"

definition a_change :: StateChange where
  "a_change = \<lparr>sc_ChainName = ''cosmoshub'', sc_StoreKey = ''bank'',
                sc_Key = ''balances/addrX/uatom'', sc_Value = ''5'', sc_Delete = False,
                sc_Height = 9, sc_Timestamp = 3\<rparr>"

definition full_listener :: StateListener where
  "full_listener =
     (NewStateListener empty_db)
       \<lparr>stateChanges := \<lparr>chan_buf = replicate 10000 a_change, chan_cap = 10000\<rparr>,
        workers := [(''cosmoshub'',
                     \<lparr>lw_chainName = ''cosmoshub'',
                      lw_changes = \<lparr>chan_buf = replicate 1000 a_change, chan_cap = 1000\<rparr>\<rparr>)]\<rparr>"

section \<open>Properties of the store\<close>

lemma find_upsert_balance_row:
  "find (\<lambda>r. balance_key r = balance_key b) (upsert_balance_row now b rs) =
     (case find (\<lambda>r. balance_key r = balance_key b) rs of
        None \<Rightarrow> Some b
      | Some r \<Rightarrow> Some (r\<lparr>bal_Amount := bal_Amount b, bal_Height := bal_Height b,
                           bal_UpdatedAt := now\<rparr>))"
  by (induction rs) (auto simp: balance_key_def)

lemma find_upsert_validator_row:
  "find (\<lambda>r. validator_key r = validator_key v) (upsert_validator_row now v rs) =
     (case find (\<lambda>r. validator_key r = validator_key v) rs of
        None \<Rightarrow> Some v
      | Some r \<Rightarrow> Some (v\<lparr>val_UpdatedAt := now\<rparr>))"
  by (induction rs) (auto simp: validator_key_def)

lemma upsert_ExecContext:
  "upsert tx st = ExecContext tx st"
  by (cases st) (simp_all add: UpsertBalance_def UpsertValidator_def)

lemma commit_one_Inr:
  "commit_one db st = Inr db' \<Longrightarrow> db' = apply_stmt db st"
  by (auto simp: commit_one_def upsert_ExecContext BeginTx_def ExecContext_def Commit_def
      split: option.splits sum.splits prod.splits)

lemma commit_seq_two:
  "commit_seq db [s1, s2] = Inr db' \<Longrightarrow> db' = apply_stmt (apply_stmt db s1) s2"
  by (auto split: sum.splits dest!: commit_one_Inr)

lemma commit_seq_example:
  "commit_seq empty_db [SBalance (a_balance ''cosmoshub'' ''1000'' 10),
                        SBalance (a_balance ''cosmoshub'' ''500'' 5)] =
     Inr (empty_db\<lparr>balances_tbl := [a_balance ''cosmoshub'' ''500'' 5]\<rparr>)"
  by (simp add: commit_one_def upsert_ExecContext BeginTx_def ExecContext_def Commit_def empty_db_def
      a_balance_def balance_key_def)

text \<open>
  C1, as the code has it. A commit of a record under a natural key that already holds
  one overwrites the stored record whatever the two heights are: the upsert compares no
  heights. After two commits under one key the store holds the amount and the height of
  the second (for a validator every column of the second but \<^verbatim>\<open>updated_at\<close>, which the
  engine stamps), also when the second height is the lower one.
\<close>

theorem later_commit_overwrites_at_any_height:
  "(commit_seq db [SBalance b1, SBalance b2] = Inr db' \<and> balance_key b1 = balance_key b2 \<longrightarrow>
      (\<exists>r. stored_balance db' (balance_key b1) = Some r \<and>
           bal_Amount r = bal_Amount b2 \<and> bal_Height r = bal_Height b2)) \<and>
   (commit_seq db [SValidator v1, SValidator v2] = Inr db' \<and> validator_key v1 = validator_key v2 \<longrightarrow>
      (\<exists>r. stored_validator db' (validator_key v1) = Some r \<and>
           r\<lparr>val_UpdatedAt := 0\<rparr> = v2\<lparr>val_UpdatedAt := 0\<rparr>))"
proof (intro conjI impI)
  assume a: "commit_seq db [SBalance b1, SBalance b2] = Inr db' \<and> balance_key b1 = balance_key b2"
  then have db': "db' = apply_stmt (apply_stmt db (SBalance b1)) (SBalance b2)"
    by (simp only: commit_seq_two)
  show "\<exists>r. stored_balance db' (balance_key b1) = Some r \<and>
           bal_Amount r = bal_Amount b2 \<and> bal_Height r = bal_Height b2"
    unfolding db' stored_balance_def using a
    by (simp add: find_upsert_balance_row split: option.splits)
next
  assume a: "commit_seq db [SValidator v1, SValidator v2] = Inr db' \<and>
    validator_key v1 = validator_key v2"
  then have db': "db' = apply_stmt (apply_stmt db (SValidator v1)) (SValidator v2)"
    by (simp only: commit_seq_two)
  show "\<exists>r. stored_validator db' (validator_key v1) = Some r \<and>
           r\<lparr>val_UpdatedAt := 0\<rparr> = v2\<lparr>val_UpdatedAt := 0\<rparr>"
    unfolding db' stored_validator_def using a
    by (simp add: find_upsert_validator_row split: option.splits)
qed

theorem later_commit_overwrites_at_any_height_witness:
  "commit_seq empty_db [SBalance (a_balance ''cosmoshub'' ''1000'' 10),
                        SBalance (a_balance ''cosmoshub'' ''500'' 5)] =
     Inr (empty_db\<lparr>balances_tbl := [a_balance ''cosmoshub'' ''500'' 5]\<rparr>) \<and>
   (\<exists>r. stored_balance (empty_db\<lparr>balances_tbl := [a_balance ''cosmoshub'' ''500'' 5]\<rparr>)
          (balance_key (a_balance ''cosmoshub'' ''1000'' 10)) = Some r \<and>
        bal_Amount r = ''500'' \<and> bal_Height r = 5) \<and>
   commit_seq empty_db [SValidator (a_validator ''70'' 10), SValidator (a_validator ''30'' 5)] =
     Inr (apply_stmt (apply_stmt empty_db (SValidator (a_validator ''70'' 10)))
            (SValidator (a_validator ''30'' 5))) \<and>
   (\<exists>r. stored_validator
          (apply_stmt (apply_stmt empty_db (SValidator (a_validator ''70'' 10)))
             (SValidator (a_validator ''30'' 5)))
          (validator_key (a_validator ''70'' 10)) = Some r \<and>
        val_Tokens r = ''30'' \<and> val_Height r = 5)"
proof -
  let ?b1 = "a_balance ''cosmoshub'' ''1000'' 10" and ?b2 = "a_balance ''cosmoshub'' ''500'' 5"
  let ?v1 = "a_validator ''70'' 10" and ?v2 = "a_validator ''30'' 5"
  let ?dbv = "apply_stmt (apply_stmt empty_db (SValidator ?v1)) (SValidator ?v2)"
  have kb: "balance_key ?b1 = balance_key ?b2"
    by (simp add: balance_key_def a_balance_def)
  have kv: "validator_key ?v1 = validator_key ?v2"
    by (simp add: validator_key_def a_validator_def)
  have cv: "commit_seq empty_db [SValidator ?v1, SValidator ?v2] = Inr ?dbv"
    by (simp add: commit_one_def upsert_ExecContext BeginTx_def ExecContext_def Commit_def empty_db_def)
  from later_commit_overwrites_at_any_height
         [of empty_db ?b1 ?b2 "empty_db\<lparr>balances_tbl := [?b2]\<rparr>" ?v1 ?v2]
       commit_seq_example kb
  have 1: "\<exists>r. stored_balance (empty_db\<lparr>balances_tbl := [?b2]\<rparr>) (balance_key ?b1) = Some r \<and>
             bal_Amount r = bal_Amount ?b2 \<and> bal_Height r = bal_Height ?b2"
    by blast
  from later_commit_overwrites_at_any_height [of empty_db ?b1 ?b2 ?dbv ?v1 ?v2] cv kv
  have 2: "\<exists>r. stored_validator ?dbv (validator_key ?v1) = Some r \<and>
             r\<lparr>val_UpdatedAt := 0\<rparr> = ?v2\<lparr>val_UpdatedAt := 0\<rparr>"
    by blast
  from 1 have bal: "\<exists>r. stored_balance (empty_db\<lparr>balances_tbl := [?b2]\<rparr>) (balance_key ?b1) = Some r \<and>
             bal_Amount r = ''500'' \<and> bal_Height r = 5"
    by (simp add: a_balance_def)
  from 2 obtain r where r: "stored_validator ?dbv (validator_key ?v1) = Some r"
    and eq: "r\<lparr>val_UpdatedAt := 0\<rparr> = ?v2\<lparr>val_UpdatedAt := 0\<rparr>"
    by blast
  from eq have "val_Tokens (r\<lparr>val_UpdatedAt := 0\<rparr>) = val_Tokens (?v2\<lparr>val_UpdatedAt := 0\<rparr>)"
    and "val_Height (r\<lparr>val_UpdatedAt := 0\<rparr>) = val_Height (?v2\<lparr>val_UpdatedAt := 0\<rparr>)"
    by simp_all
  then have "val_Tokens r = ''30''" and "val_Height r = 5"
    by (simp_all add: a_validator_def)
  with r bal commit_seq_example cv show ?thesis by blast
qed

text \<open>
  C1 as stated fails: \<^verbatim>\<open>addrX/uatom\<close> is committed on \<^verbatim>\<open>cosmoshub\<close> with amount 1000 at
  height 10, then with amount 500 at height 5. The claim leaves (1000, 10) in the store;
  the code leaves (500, 5).
\<close>

theorem lower_height_commit_is_not_a_noop:
  "(case commit_seq empty_db [SBalance (a_balance ''cosmoshub'' ''1000'' 10)] of
      Inr db \<Rightarrow> map_option (\<lambda>r. (bal_Amount r, bal_Height r))
                  (stored_balance db (''cosmoshub'', ''addrX'', ''uatom''))
    | Inl err \<Rightarrow> None) = Some (''1000'', 10) \<and>
   (case commit_seq empty_db [SBalance (a_balance ''cosmoshub'' ''1000'' 10),
                              SBalance (a_balance ''cosmoshub'' ''500'' 5)] of
      Inr db \<Rightarrow> map_option (\<lambda>r. (bal_Amount r, bal_Height r))
                  (stored_balance db (''cosmoshub'', ''addrX'', ''uatom''))
    | Inl err \<Rightarrow> None) = Some (''500'', 5)"
  by (simp add: commit_one_def upsert_ExecContext BeginTx_def ExecContext_def Commit_def empty_db_def
      a_balance_def balance_key_def stored_balance_def)

text \<open>
  C10. \<^verbatim>\<open>GetAccount\<close> tells absence from failure: when the query itself goes through
  and no row of the accounts table has the chain and the address, the result is
  \<^verbatim>\<open>(nil, nil)\<close>; and it returns an error exactly when the query fails.
\<close>

theorem GetAccount_absent_is_nil_nil:
  "(query_fault db (QAccount chain address) = None \<and>
    (\<forall>a \<in> set (accounts_tbl db). acc_ChainName a \<noteq> chain \<or> acc_Address a \<noteq> address)
      \<longrightarrow> GetAccount db chain address = Inr None) \<and>
   ((\<exists>err. GetAccount db chain address = Inl err) =
      (query_fault db (QAccount chain address) \<noteq> None))"
proof (intro conjI impI)
  assume a: "query_fault db (QAccount chain address) = None \<and>
    (\<forall>a \<in> set (accounts_tbl db). acc_ChainName a \<noteq> chain \<or> acc_Address a \<noteq> address)"
  then have "find (\<lambda>a. acc_ChainName a = chain \<and> acc_Address a = address) (accounts_tbl db) = None"
    by (auto simp: find_None_iff)
  with a show "GetAccount db chain address = Inr None"
    by (simp add: GetAccount_def QueryRow_Scan_def)
next
  show "(\<exists>err. GetAccount db chain address = Inl err) =
      (query_fault db (QAccount chain address) \<noteq> None)"
    by (auto simp: GetAccount_def QueryRow_Scan_def split: option.splits scan_result.splits)
qed

theorem GetAccount_absent_is_nil_nil_witness:
  "GetAccount (empty_db\<lparr>accounts_tbl := [an_account]\<rparr>) ''cosmoshub'' ''addrX'' = Inr None \<and>
   GetAccount (empty_db\<lparr>accounts_tbl := [an_account]\<rparr>) ''cosmoshub'' ''addrY'' =
     Inr (Some an_account)"
proof -
  have "query_fault (empty_db\<lparr>accounts_tbl := [an_account]\<rparr>) (QAccount ''cosmoshub'' ''addrX'') =
          None \<and>
        (\<forall>a \<in> set (accounts_tbl (empty_db\<lparr>accounts_tbl := [an_account]\<rparr>)).
           acc_ChainName a \<noteq> ''cosmoshub'' \<or> acc_Address a \<noteq> ''addrX'')"
    by (simp add: empty_db_def an_account_def)
  then have "GetAccount (empty_db\<lparr>accounts_tbl := [an_account]\<rparr>) ''cosmoshub'' ''addrX'' = Inr None"
    using GetAccount_absent_is_nil_nil
      [of "empty_db\<lparr>accounts_tbl := [an_account]\<rparr>" "''cosmoshub''" "''addrX''"]
    by blast
  moreover have "GetAccount (empty_db\<lparr>accounts_tbl := [an_account]\<rparr>) ''cosmoshub'' ''addrY'' =
      Inr (Some an_account)"
    by (simp add: GetAccount_def QueryRow_Scan_def empty_db_def an_account_def)
  ultimately show ?thesis by simp
qed

section \<open>Properties of the resolver\<close>

lemma scenario_db_eq:
  "scenario_db = empty_db\<lparr>balances_tbl :=
      [a_balance ''cosmoshub'' ''1000000'' 101, a_balance ''osmosis'' ''2500000'' 50]\<rparr>"
  by (simp add: scenario_db_def commit_one_def upsert_ExecContext BeginTx_def ExecContext_def Commit_def
      empty_db_def a_balance_def balance_key_def)

lemma Account_scenario:
  "Account \<lparr>postgres = scenario_db, clickhouse = None\<rparr> ''addrX'' ''cosmoshub'' =
     Inr \<lparr>as_ChainName = ''cosmoshub'', as_Address = ''addrX'',
          as_Balances = [a_balance ''cosmoshub'' ''1000000'' 101], as_Delegations = []\<rparr>"
  "Account \<lparr>postgres = scenario_db, clickhouse = None\<rparr> ''addrX'' ''osmosis'' =
     Inr \<lparr>as_ChainName = ''osmosis'', as_Address = ''addrX'',
          as_Balances = [a_balance ''osmosis'' ''2500000'' 50], as_Delegations = []\<rparr>"
  by (simp_all add: Account_def GetBalances_def GetDelegations_def scenario_db_eq empty_db_def
      a_balance_def)

text \<open>
  C2, at the spec's own scenario: \<^verbatim>\<open>CrossChainAccount\<close> returns for \<^verbatim>\<open>uatom\<close> the text
  \<^verbatim>\<open>1000000+2500000\<close>, the two amounts joined by a plus sign, where the claim has their
  sum \<^verbatim>\<open>3500000\<close>.
\<close>

theorem totals_are_joined_texts:
  "(case CrossChainAccount \<lparr>postgres = scenario_db, clickhouse = None\<rparr> ''addrX'' of
      Inr st \<Rightarrow> TotalBalance (cc_Totals st)
    | Inl err \<Rightarrow> []) = [(''uatom'', ''1000000+2500000'')]"
  by (simp add: CrossChainAccount_def aggregate_over_def finish_aggregation_def Account_scenario
      a_balance_def)




lemma aggregate_chains_filter:
  "aggregate_chains r address chainNames acc =
     aggregate_chains r address (filter (fetched r address) chainNames) acc"
  by (induction chainNames arbitrary: acc) (auto simp: fetched_def split: sum.splits)

lemma chainStates_aggregate_chains:
  "map cas_ChainName (chainStates (aggregate_chains r address chainNames acc)) =
     map cas_ChainName (chainStates acc) @ filter (fetched r address) chainNames"
  by (induction chainNames arbitrary: acc) (auto simp: fetched_def split: sum.splits)

lemma cc_Chains_aggregate_over:
  "map cas_ChainName (cc_Chains (aggregate_over r address cs)) = filter (fetched r address) cs"
  by (simp add: aggregate_over_def finish_aggregation_def chainStates_aggregate_chains)

lemma aggregate_over_filter:
  "aggregate_over r address cs = aggregate_over r address (filter (fetched r address) cs)"
  unfolding aggregate_over_def by (subst aggregate_chains_filter) (rule refl)

text \<open>
  C4, as the code has it. \<^verbatim>\<open>CrossChainAccount\<close> always succeeds. Its result lists
  exactly the chains whose account state could be read, in the order of the request, and
  it is the result of aggregating over those chains alone: a chain that could not be read
  adds nothing to the chain list or to the totals, and nothing in the result names it
  (there is no failure map). The REST handler \<^verbatim>\<open>getCrossChainAccount\<close> always answers
  200 with no chain at all.
\<close>

theorem CrossChainAccount_always_succeeds:
  "(\<exists>st. CrossChainAccount r address = Inr st \<and>
         map cas_ChainName (cc_Chains st) =
           filter (fetched r address) [''cosmoshub'', ''osmosis''] \<and>
         st = aggregate_over r address (filter (fetched r address) [''cosmoshub'', ''osmosis''])) \<and>
   fst (getCrossChainAccount r address) = 200 \<and>
   rest_Chains (snd (getCrossChainAccount r address)) = []"
  unfolding CrossChainAccount_def Let_def getCrossChainAccount_def
  using cc_Chains_aggregate_over [of r address "[''cosmoshub'', ''osmosis'']"]
    aggregate_over_filter [of r address "[''cosmoshub'', ''osmosis'']"]
  by (simp del: filter.simps)

text \<open>
  C4 as stated fails where no chain can be read: every query times out, and the call
  still succeeds, with an empty chain list and empty totals.
\<close>

theorem no_chain_read_still_succeeds:
  "CrossChainAccount \<lparr>postgres = unreachable_db, clickhouse = None\<rparr> ''addrX'' =
     Inr \<lparr>cc_Address = ''addrX'', cc_Chains = [],
          cc_Totals = \<lparr>TotalBalance = [], TotalDelegated = [], TotalUnbonding = [],
                       TotalRewards = 0\<rparr>\<rparr>"
  by (simp add: CrossChainAccount_def aggregate_over_def finish_aggregation_def Account_def
      GetBalances_def unreachable_db_def empty_db_def)

text \<open>
  C8, as the code has it. With a ClickHouse store configured, \<^verbatim>\<open>BalanceHistory\<close> called
  with no denomination panics on the nil pointer, whatever the limit; with no ClickHouse
  store it returns the error of the first check and never reaches the dereference.
\<close>

theorem BalanceHistory_nil_denom:
  "(clickhouse r = Some store \<longrightarrow>
      BalanceHistory r address chain None limit =
        Panics ''runtime error: invalid memory address or nil pointer dereference'') \<and>
   (clickhouse r = None \<longrightarrow>
      BalanceHistory r address chain None limit =
        Returns (Inl (Error ''ClickHouse not available for analytics queries'')))"
  by (simp add: BalanceHistory_def Let_def)

theorem BalanceHistory_nil_denom_witness:
  "BalanceHistory \<lparr>postgres = empty_db,
                   clickhouse = Some \<lparr>balance_events = [], ch_query_fault = None\<rparr>\<rparr>
     ''addrX'' ''cosmoshub'' None (Some 10) =
     Panics ''runtime error: invalid memory address or nil pointer dereference'' \<and>
   BalanceHistory \<lparr>postgres = empty_db, clickhouse = None\<rparr>
     ''addrX'' ''cosmoshub'' None (Some 10) =
     Returns (Inl (Error ''ClickHouse not available for analytics queries''))"
  using BalanceHistory_nil_denom
    [of "\<lparr>postgres = empty_db, clickhouse = Some \<lparr>balance_events = [], ch_query_fault = None\<rparr>\<rparr>"
        "\<lparr>balance_events = [], ch_query_fault = None\<rparr>" "''addrX''" "''cosmoshub''" "Some 10"]
    BalanceHistory_nil_denom
    [of "\<lparr>postgres = empty_db, clickhouse = None\<rparr>"
        "\<lparr>balance_events = [], ch_query_fault = None\<rparr>" "''addrX''" "''cosmoshub''" "Some 10"]
  by simp

text \<open>
  C8 as stated fails where the ClickHouse store is absent: the call with no denomination
  returns an error and does not panic.
\<close>

theorem BalanceHistory_nil_denom_without_clickhouse:
  "BalanceHistory \<lparr>postgres = empty_db, clickhouse = None\<rparr> ''addrX'' ''cosmoshub'' None None =
     Returns (Inl (Error ''ClickHouse not available for analytics queries''))"
  by (simp add: BalanceHistory_def)

section \<open>Properties of the polling worker\<close>

lemmas ingest_defs = ingestChainState_def GetLatestHeight_def GetValidators_def Manager_BeginTx_def
      BeginTx_def ingest_module_def ingestStakingModule_def ingestGovernanceModule_def
      GetProposals_def UpsertValidator_def ExecContext_def Commit_def Rollback_def
      a_worker_def a_client_def empty_db_def a_sdk_validator_def to_Validator_def

text \<open>
  C3, on a cycle of the modules staking and governance: the chain reports one validator,
  the proposals query times out. \<^verbatim>\<open>ingestChainState\<close> returns the governance error,
  and the validator row that the staking module wrote earlier in the same cycle is in
  the store, which was empty before: the staking module committed it in a transaction
  of its own, and the rollback of the cycle's transaction undoes nothing.
\<close>

theorem earlier_module_stays_committed:
  "fst (ingestChainState
          (a_worker [''staking'', ''governance''] [a_sdk_validator ''cosmosvaloper1'']
             (Inl (Error ''timeout''))) 7 empty_db) =
     Some (Error ''failed to get proposals: failed to get proposals: timeout'') \<and>
   map (\<lambda>r. (val_OperatorAddress r, val_Height r))
     (validators_tbl
        (snd (ingestChainState
                (a_worker [''staking'', ''governance''] [a_sdk_validator ''cosmosvaloper1'']
                   (Inl (Error ''timeout''))) 7 empty_db))) = [(''cosmosvaloper1'', 42)] \<and>
   validators_tbl empty_db = []"
  by (simp add: ingest_defs)

lemma upsert_validators_rejected:
  "\<exists>val \<in> set vals. tx_exec_err tx (SValidator (to_Validator w h now val)) \<noteq> None \<Longrightarrow>
   \<exists>err. upsert_validators w h now vals tx = Inl err"
proof (induction vals arbitrary: tx)
  case Nil
  then show ?case by simp
next
  case (Cons val rest)
  show ?case
  proof (cases "tx_exec_err tx (SValidator (to_Validator w h now val))")
    case (Some e)
    then show ?thesis by (simp add: UpsertValidator_def ExecContext_def)
  next
    case None
    let ?tx' = "tx\<lparr>tx_pending := tx_pending tx @ [SValidator (to_Validator w h now val)]\<rparr>"
    from None Cons.prems
    have "\<exists>x \<in> set rest. tx_exec_err ?tx' (SValidator (to_Validator w h now x)) \<noteq> None"
      by auto
    from Cons.IH [OF this] None show ?thesis
      by (simp add: UpsertValidator_def ExecContext_def)
  qed
qed

lemma ingestStakingModule_rejected:
  assumes "GetValidators (client w) '''' = Inr vals" and "begin_err db = None"
    and "\<exists>val \<in> set vals. exec_err db (SValidator (to_Validator w h now val)) \<noteq> None"
  shows "\<exists>err. ingestStakingModule w h now db = (Some err, db)"
proof -
  let ?tx = "\<lparr>tx_exec_err = exec_err db, tx_pending = []\<rparr>"
  from assms(3) have "\<exists>val \<in> set vals. tx_exec_err ?tx (SValidator (to_Validator w h now val)) \<noteq> None"
    by simp
  from upsert_validators_rejected [OF this] obtain err
    where "upsert_validators w h now vals ?tx = Inl err" by blast
  with assms(1,2) show ?thesis
    by (simp add: ingestStakingModule_def Manager_BeginTx_def BeginTx_def Rollback_def)
qed

lemma ingest_modules_abort:
  "ingest_modules w h now ms1 db = (None, db1) \<Longrightarrow>
   ingest_module w h now m db1 = (Some err, db2) \<Longrightarrow>
   ingest_modules w h now (ms1 @ m # ms2) db = (Some err, db2)"
  by (induction ms1 arbitrary: db) (auto split: prod.splits option.splits)

lemma processStateChange_cases:
  "processStateChange c sl =
     (if balance_change c then (Some (Error ''invalid balance key format''), sl) else (None, sl))"
  by (simp add: processStateChange_def processBankStateChange_def processBalanceChange_def
      processSupplyChange_def balance_change_def Let_def)

lemma start_closed_form:
  "start changes sl =
     sl\<lparr>sl_log := sl_log sl @
          map (\<lambda>c. failed_entry c (Error ''invalid balance key format''))
            (filter balance_change changes)\<rparr>"
  by (induction changes arbitrary: sl) (simp_all add: processStateChange_cases)

text \<open>
  C7, as the code has it. In a polling cycle a record that fails aborts its batch: when
  the store rejects the upsert of one validator, \<^verbatim>\<open>ingestStakingModule\<close> returns the
  error and leaves the store as it was, the other validators of the batch included; and
  the first module that fails ends the cycle, \<^verbatim>\<open>ingestChainState\<close> returning its error
  with the store as that module left it, whatever modules follow. Nothing counts errors.
  Only the worker of the push listener skips: \<^verbatim>\<open>start\<close> goes through all the changes
  it receives and writes one error line for each balance change, which always fails.
\<close>

theorem failing_record_or_module_aborts_cycle:
  "(GetValidators (client w) '''' = Inr vals \<and> begin_err db = None \<and>
    (\<exists>val \<in> set vals. exec_err db (SValidator (to_Validator w h now val)) \<noteq> None) \<longrightarrow>
      (\<exists>err. ingestStakingModule w h now db = (Some err, db))) \<and>
   (GetLatestHeight (client w) = Inr h \<and> begin_err db = None \<and> Modules w = ms1 @ m # ms2 \<and>
    ingest_modules w h now ms1 db = (None, db1) \<and>
    ingest_module w h now m db1 = (Some err, db2) \<longrightarrow>
      ingestChainState w now db = (Some err, db2)) \<and>
   start changes sl =
     sl\<lparr>sl_log := sl_log sl @
          map (\<lambda>c. failed_entry c (Error ''invalid balance key format''))
            (filter balance_change changes)\<rparr>"
proof (intro conjI impI)
  assume "GetValidators (client w) '''' = Inr vals \<and> begin_err db = None \<and>
    (\<exists>val \<in> set vals. exec_err db (SValidator (to_Validator w h now val)) \<noteq> None)"
  then show "\<exists>err. ingestStakingModule w h now db = (Some err, db)"
    using ingestStakingModule_rejected by blast
next
  assume a: "GetLatestHeight (client w) = Inr h \<and> begin_err db = None \<and>
    Modules w = ms1 @ m # ms2 \<and> ingest_modules w h now ms1 db = (None, db1) \<and>
    ingest_module w h now m db1 = (Some err, db2)"
  then have "ingest_modules w h now (Modules w) db = (Some err, db2)"
    using ingest_modules_abort [of w h now ms1 db db1 m err db2 ms2] by simp
  with a show "ingestChainState w now db = (Some err, db2)"
    by (simp add: ingestChainState_def Manager_BeginTx_def BeginTx_def Rollback_def)
next
  show "start changes sl =
     sl\<lparr>sl_log := sl_log sl @
          map (\<lambda>c. failed_entry c (Error ''invalid balance key format''))
            (filter balance_change changes)\<rparr>"
    by (rule start_closed_form)
qed

theorem failing_record_or_module_aborts_cycle_witness:
  "(\<exists>err. ingestStakingModule
            (a_worker [''staking'']
               [a_sdk_validator ''cosmosvaloper1'', a_sdk_validator ''cosmosvaloper2''] (Inr []))
            42 7 rejecting_db = (Some err, rejecting_db)) \<and>
   ingestChainState
     (a_worker [''governance'', ''staking''] [a_sdk_validator ''cosmosvaloper1'']
        (Inl (Error ''timeout''))) 7 empty_db =
     (Some (Error ''failed to get proposals: failed to get proposals: timeout''), empty_db) \<and>
   sl_log (start [a_change, a_change\<lparr>sc_StoreKey := ''staking''\<rparr>] (NewStateListener empty_db)) =
     [failed_entry a_change (Error ''invalid balance key format'')]"
proof -
  let ?w1 = "a_worker [''staking'']
               [a_sdk_validator ''cosmosvaloper1'', a_sdk_validator ''cosmosvaloper2''] (Inr [])"
  let ?w2 = "a_worker [''governance'', ''staking''] [a_sdk_validator ''cosmosvaloper1'']
               (Inl (Error ''timeout''))"
  let ?e = "Error ''failed to get proposals: failed to get proposals: timeout''"
  let ?cs = "[a_change, a_change\<lparr>sc_StoreKey := ''staking''\<rparr>]"
  have h1: "GetValidators (client ?w1) '''' =
              Inr [a_sdk_validator ''cosmosvaloper1'', a_sdk_validator ''cosmosvaloper2''] \<and>
            begin_err rejecting_db = None \<and>
            (\<exists>val \<in> set [a_sdk_validator ''cosmosvaloper1'', a_sdk_validator ''cosmosvaloper2''].
               exec_err rejecting_db (SValidator (to_Validator ?w1 42 7 val)) \<noteq> None)"
    by (simp add: GetValidators_def a_worker_def a_client_def rejecting_db_def empty_db_def
        to_Validator_def a_sdk_validator_def)
  have h2: "GetLatestHeight (client ?w2) = Inr 42 \<and> begin_err empty_db = None \<and>
            Modules ?w2 = [] @ ''governance'' # [''staking''] \<and>
            ingest_modules ?w2 42 7 [] empty_db = (None, empty_db) \<and>
            ingest_module ?w2 42 7 ''governance'' empty_db = (Some ?e, empty_db)"
    by (simp add: GetLatestHeight_def GetValidators_def a_worker_def a_client_def empty_db_def
        a_sdk_validator_def ingest_module_def ingestGovernanceModule_def GetProposals_def)
  note t1 = failing_record_or_module_aborts_cycle
    [of ?w1 "[a_sdk_validator ''cosmosvaloper1'', a_sdk_validator ''cosmosvaloper2'']"
        rejecting_db 42 7 "[]" "''governance''" "[''staking'']" empty_db ?e empty_db
        ?cs "NewStateListener empty_db"]
  note t2 = failing_record_or_module_aborts_cycle
    [of ?w2 "[a_sdk_validator ''cosmosvaloper1'']"
        empty_db 42 7 "[]" "''governance''" "[''staking'']" empty_db ?e empty_db
        ?cs "NewStateListener empty_db"]
  from t1 h1 have 1: "\<exists>err. ingestStakingModule ?w1 42 7 rejecting_db = (Some err, rejecting_db)"
    by blast
  from t2 h2 have 2: "ingestChainState ?w2 7 empty_db = (Some ?e, empty_db)"
    by blast
  from t1 have 3: "start ?cs (NewStateListener empty_db) =
     (NewStateListener empty_db)\<lparr>sl_log := sl_log (NewStateListener empty_db) @
          map (\<lambda>c. failed_entry c (Error ''invalid balance key format''))
            (filter balance_change ?cs)\<rparr>"
    by blast
  have 4: "sl_log (start ?cs (NewStateListener empty_db)) =
             [failed_entry a_change (Error ''invalid balance key format'')]"
    unfolding 3 by (simp add: NewStateListener_def balance_change_def a_change_def)
  from 1 2 4 show ?thesis by blast
qed

text \<open>
  C7 as stated fails: the chain reports two validators and the store rejects the row of
  the first. The cycle returns the error and commits no validator, although the second
  one is valid and is committed when it comes alone.
\<close>

theorem one_rejected_record_aborts_the_batch:
  "fst (ingestChainState
          (a_worker [''staking'']
             [a_sdk_validator ''cosmosvaloper1'', a_sdk_validator ''cosmosvaloper2''] (Inr []))
          7 rejecting_db) =
     Some (Error ''failed to upsert validator: rejected'') \<and>
   validators_tbl
     (snd (ingestChainState
             (a_worker [''staking'']
                [a_sdk_validator ''cosmosvaloper1'', a_sdk_validator ''cosmosvaloper2''] (Inr []))
             7 rejecting_db)) = [] \<and>
   map val_OperatorAddress
     (validators_tbl
        (snd (ingestChainState
                (a_worker [''staking''] [a_sdk_validator ''cosmosvaloper2''] (Inr []))
                7 rejecting_db))) = [''cosmosvaloper2'']"
  by (simp add: ingest_defs rejecting_db_def)

lemma find_upsert_validator_row_other:
  "k \<noteq> validator_key v \<Longrightarrow>
   find (\<lambda>r. validator_key r = k) (upsert_validator_row now v rs) =
     find (\<lambda>r. validator_key r = k) rs"
  by (induction rs) (auto simp: validator_key_def)

lemma stored_validator_after_upsert:
  "\<exists>row. find (\<lambda>r. validator_key r = validator_key v) (upsert_validator_row now v rs) = Some row \<and>
         val_Height row = val_Height v"
  by (simp add: find_upsert_validator_row split: option.splits)

lemma foldl_upserts_height:
  "\<forall>x \<in> set xs. val_Height x = h \<Longrightarrow>
   \<forall>x \<in> set xs. \<exists>row. stored_validator (foldl apply_stmt db (map SValidator xs))
                         (validator_key x) = Some row \<and> val_Height row = h"
proof (induction xs rule: rev_induct)
  case Nil
  then show ?case by simp
next
  case (snoc y xs)
  let ?db = "foldl apply_stmt db (map SValidator xs)"
  have IH: "\<forall>x \<in> set xs. \<exists>row. stored_validator ?db (validator_key x) = Some row \<and>
              val_Height row = h"
    using snoc by simp
  have hy: "val_Height y = h" using snoc.prems by simp
  show ?case
  proof
    fix x assume x: "x \<in> set (xs @ [y])"
    show "\<exists>row. stored_validator (foldl apply_stmt db (map SValidator (xs @ [y])))
                   (validator_key x) = Some row \<and> val_Height row = h"
    proof (cases "validator_key x = validator_key y")
      case True
      then show ?thesis
        using stored_validator_after_upsert [of y "db_clock ?db" "validators_tbl ?db"] hy
        by (simp add: stored_validator_def)
    next
      case False
      with x have "x \<in> set xs" by auto
      with IH obtain row where "stored_validator ?db (validator_key x) = Some row"
        "val_Height row = h" by blast
      with False show ?thesis
        by (simp add: stored_validator_def find_upsert_validator_row_other)
    qed
  qed
qed

lemma upsert_validators_pending:
  "upsert_validators w h now vals tx = Inr tx' \<Longrightarrow>
   tx_pending tx' = tx_pending tx @ map (\<lambda>val. SValidator (to_Validator w h now val)) vals"
  by (induction vals arbitrary: tx)
     (auto simp: UpsertValidator_def ExecContext_def split: option.splits prod.splits)

lemma ingestStakingModule_recorded:
  assumes "ingestStakingModule w h now db = (None, db')"
    and "GetValidators (client w) '''' = Inr vals"
  shows "recorded_at w h vals db'"
proof -
  from assms obtain tx tx' where tx: "Manager_BeginTx db = Inr tx"
    and tx': "upsert_validators w h now vals tx = Inr tx'"
    and c: "Commit tx' db = Inr db'"
    by (auto simp: ingestStakingModule_def split: sum.splits)
  from tx have "tx_pending tx = []"
    by (auto simp: Manager_BeginTx_def BeginTx_def split: option.splits sum.splits)
  with upsert_validators_pending [OF tx']
  have p: "tx_pending tx' = map SValidator (map (to_Validator w h now) vals)" by simp
  from c have db': "db' = foldl apply_stmt db (tx_pending tx')"
    by (auto simp: Commit_def split: option.splits)
  have "\<forall>x \<in> set (map (to_Validator w h now) vals). val_Height x = h"
    by (simp add: to_Validator_def)
  from foldl_upserts_height [OF this, of db]
  show ?thesis unfolding recorded_at_def db' p
    by (simp add: validator_key_def to_Validator_def)
qed

lemma ingest_module_other:
  "m \<noteq> ''staking'' \<Longrightarrow> ingest_module w h now m db = (None, db') \<Longrightarrow> db' = db"
  by (auto simp: ingest_module_def ingestBankModule_def ingestDistributionModule_def
      ingestGovernanceModule_def ingestMintModule_def ingestSlashingModule_def
      split: if_splits sum.splits)

lemma ingest_module_staking:
  "ingest_module w h now ''staking'' db = ingestStakingModule w h now db"
  by (simp add: ingest_module_def)

lemma ingest_modules_recorded:
  "ingest_modules w h now ms db = (None, db') \<Longrightarrow>
   GetValidators (client w) '''' = Inr vals \<Longrightarrow>
   recorded_at w h vals db \<or> ''staking'' \<in> set ms \<Longrightarrow>
   recorded_at w h vals db'"
proof (induction ms arbitrary: db)
  case Nil
  then show ?case by simp
next
  case (Cons m ms)
  from Cons.prems(1) obtain db1 where m: "ingest_module w h now m db = (None, db1)"
    and rest: "ingest_modules w h now ms db1 = (None, db')"
    by (auto split: prod.splits option.splits)
  show ?case
  proof (cases "m = ''staking''")
    case True
    with m Cons.prems(2) have "recorded_at w h vals db1"
      by (simp add: ingest_module_staking ingestStakingModule_recorded)
    with Cons.IH [OF rest Cons.prems(2)] show ?thesis by blast
  next
    case False
    from ingest_module_other [OF False m] have "db1 = db" .
    with Cons.IH [OF rest Cons.prems(2)] Cons.prems(3) False show ?thesis by auto
  qed
qed

lemma ingestChainState_None:
  "ingestChainState w now db = (None, db') \<Longrightarrow>
   \<exists>h. GetLatestHeight (client w) = Inr h \<and>
       ingest_modules w h now (Modules w) db = (None, db')"
  by (auto simp: ingestChainState_def Manager_BeginTx_def BeginTx_def Commit_def
      split: sum.splits option.splits prod.splits)

lemma GetLatestHeight_Inr:
  "GetLatestHeight c = Inr h \<Longrightarrow>
   \<exists>v vs. GetValidators c '''' = Inr (v # vs) \<and> h = sdk_UnbondingHeight v"
  by (cases "GetValidators c ''''")
     (auto simp: GetLatestHeight_def neq_Nil_conv split: if_splits)

text \<open>
  C9. \<^verbatim>\<open>GetLatestHeight\<close> returns the \<^verbatim>\<open>UnbondingHeight\<close> of the first validator of
  the list, and an error when the list is empty; and after a cycle that succeeds with
  the staking module enabled, every validator the chain reported has a stored row whose
  height is that value.
\<close>

theorem height_is_first_validators_unbonding_height:
  "(GetValidators c '''' = Inr (v # vs) \<longrightarrow> GetLatestHeight c = Inr (sdk_UnbondingHeight v)) \<and>
   (GetValidators c '''' = Inr [] \<longrightarrow> GetLatestHeight c = Inl (Error ''no validators found'')) \<and>
   (ingestChainState w now db = (None, db') \<and> ''staking'' \<in> set (Modules w) \<longrightarrow>
      (\<exists>v vs. GetValidators (client w) '''' = Inr (v # vs) \<and>
         (\<forall>val \<in> set (v # vs).
            \<exists>row. stored_validator db' (chainName w, sdk_OperatorAddress val) = Some row \<and>
                  val_Height row = sdk_UnbondingHeight v)))"
proof (intro conjI impI)
  assume "GetValidators c '''' = Inr (v # vs)"
  then show "GetLatestHeight c = Inr (sdk_UnbondingHeight v)"
    by (simp add: GetLatestHeight_def)
next
  assume "GetValidators c '''' = Inr []"
  then show "GetLatestHeight c = Inl (Error ''no validators found'')"
    by (simp add: GetLatestHeight_def)
next
  assume a: "ingestChainState w now db = (None, db') \<and> ''staking'' \<in> set (Modules w)"
  then obtain h where h: "GetLatestHeight (client w) = Inr h"
    and ms: "ingest_modules w h now (Modules w) db = (None, db')"
    using ingestChainState_None by blast
  from GetLatestHeight_Inr [OF h] obtain v vs
    where g: "GetValidators (client w) '''' = Inr (v # vs)" and hv: "h = sdk_UnbondingHeight v"
    by blast
  from ingest_modules_recorded [OF ms g] a have "recorded_at w h (v # vs) db'" by blast
  with g hv show "\<exists>v vs. GetValidators (client w) '''' = Inr (v # vs) \<and>
         (\<forall>val \<in> set (v # vs).
            \<exists>row. stored_validator db' (chainName w, sdk_OperatorAddress val) = Some row \<and>
                  val_Height row = sdk_UnbondingHeight v)"
    unfolding recorded_at_def by blast
qed

theorem height_is_first_validators_unbonding_height_witness:
  "GetLatestHeight (a_client [a_sdk_validator ''cosmosvaloper1''] (Inr [])) = Inr 42 \<and>
   GetLatestHeight (a_client [] (Inr [])) = Inl (Error ''no validators found'') \<and>
   (\<exists>row. stored_validator
            (snd (ingestChainState
                    (a_worker [''staking''] [a_sdk_validator ''cosmosvaloper1''] (Inr []))
                    7 empty_db))
            (''cosmoshub'', ''cosmosvaloper1'') = Some row \<and> val_Height row = 42)"
proof -
  let ?v = "a_sdk_validator ''cosmosvaloper1''"
  let ?w = "a_worker [''staking''] [?v] (Inr [])"
  let ?db' = "snd (ingestChainState ?w 7 empty_db)"
  have g1: "GetValidators (a_client [?v] (Inr [])) '''' = Inr (?v # [])"
    by (simp add: GetValidators_def a_client_def)
  have g2: "GetValidators (a_client [] (Inr [])) '''' = Inr []"
    by (simp add: GetValidators_def a_client_def)
  have "fst (ingestChainState ?w 7 empty_db) = None"
    by (simp add: ingest_defs)
  then have r: "ingestChainState ?w 7 empty_db = (None, ?db') \<and> ''staking'' \<in> set (Modules ?w)"
    by (simp add: prod_eq_iff a_worker_def)
  note t1 = height_is_first_validators_unbonding_height
    [of "a_client [?v] (Inr [])" ?v "[]" ?w 7 empty_db ?db']
  note t2 = height_is_first_validators_unbonding_height
    [of "a_client [] (Inr [])" ?v "[]" ?w 7 empty_db ?db']
  from t1 g1 have 1: "GetLatestHeight (a_client [?v] (Inr [])) = Inr (sdk_UnbondingHeight ?v)"
    by blast
  from t2 g2 have 2: "GetLatestHeight (a_client [] (Inr [])) = Inl (Error ''no validators found'')"
    by blast
  from t1 r obtain v vs where g: "GetValidators (client ?w) '''' = Inr (v # vs)"
    and all: "\<forall>val \<in> set (v # vs).
            \<exists>row. stored_validator ?db' (chainName ?w, sdk_OperatorAddress val) = Some row \<and>
                  val_Height row = sdk_UnbondingHeight v"
    by blast
  from g have v: "v = ?v" and vs: "vs = []"
    by (simp_all add: GetValidators_def a_worker_def a_client_def)
  from all have "\<exists>row. stored_validator ?db' (chainName ?w, sdk_OperatorAddress ?v) = Some row \<and>
                  val_Height row = sdk_UnbondingHeight ?v"
    unfolding v vs by simp
  then have 3: "\<exists>row. stored_validator ?db' (''cosmoshub'', ''cosmosvaloper1'') = Some row \<and>
                  val_Height row = 42"
    by (simp add: a_worker_def a_sdk_validator_def)
  from 1 have 1: "GetLatestHeight (a_client [?v] (Inr [])) = Inr 42"
    by (simp add: a_sdk_validator_def)
  from 1 2 3 show ?thesis by blast
qed

section \<open>Properties of the listener\<close>

text \<open>
  C5, as the code has it. \<^verbatim>\<open>OnStateChange\<close> on a full queue does not block: it drops
  the incoming change and leaves the listener as it was but for one warning line in the
  log; the queue, its size and every other field are unchanged. It returns nothing and
  counts nothing. With room in the queue the change is appended at the back, and a
  receive takes the front, so accepted changes leave in the order they came. The queue
  of a chain's worker drops the same way when \<^verbatim>\<open>processStateChanges\<close> routes to it.
\<close>

theorem full_queue_drops_the_incoming_change:
  "(length (chan_buf (stateChanges sl)) = chan_cap (stateChanges sl) \<longrightarrow>
      OnStateChange sl chain storeKey key val del height now =
        sl\<lparr>sl_log := sl_log sl @
              [Log WarnLevel ''State change channel full, dropping change''
                 [String ''chain'' chain, String ''store'' storeKey, Int64 ''height'' height]]\<rparr>) \<and>
   (length (chan_buf (stateChanges sl)) < chan_cap (stateChanges sl) \<longrightarrow>
      OnStateChange sl chain storeKey key val del height now =
        sl\<lparr>stateChanges := (stateChanges sl)
              \<lparr>chan_buf := chan_buf (stateChanges sl) @
                 [\<lparr>sc_ChainName = chain, sc_StoreKey = storeKey, sc_Key = key, sc_Value = val,
                   sc_Delete = del, sc_Height = height, sc_Timestamp = now\<rparr>]\<rparr>\<rparr>) \<and>
   (map_of (workers sl) (sc_ChainName change) = Some worker \<and>
    length (chan_buf (lw_changes worker)) = chan_cap (lw_changes worker) \<longrightarrow>
      route_change sl change =
        sl\<lparr>sl_log := sl_log sl @
              [Log WarnLevel ''Worker channel full'' [String ''chain'' (sc_ChainName change)]]\<rparr>) \<and>
   (chan_buf c = x # rest \<longrightarrow> try_recv c = Some (x, c\<lparr>chan_buf := rest\<rparr>))"
  by (simp add: OnStateChange_def route_change_def try_send_def try_recv_def Let_def)

theorem full_queue_drops_the_incoming_change_witness:
  "stateChanges (OnStateChange full_listener ''cosmoshub'' ''bank'' ''balances/addrX/uatom'' ''5''
       False 9 3) = \<lparr>chan_buf = replicate 10000 a_change, chan_cap = 10000\<rparr> \<and>
   chan_buf (stateChanges (OnStateChange (NewStateListener empty_db) ''cosmoshub'' ''bank''
       ''balances/addrX/uatom'' ''5'' False 9 3)) = [a_change] \<and>
   sl_log (route_change full_listener a_change) =
     [Log WarnLevel ''Worker channel full'' [String ''chain'' ''cosmoshub'']] \<and>
   workers (route_change full_listener a_change) = workers full_listener \<and>
   try_recv \<lparr>chan_buf = [a_change, a_change\<lparr>sc_Height := 10\<rparr>], chan_cap = 1000\<rparr> =
     Some (a_change, \<lparr>chan_buf = [a_change\<lparr>sc_Height := 10\<rparr>], chan_cap = 1000\<rparr>)"
proof -
  let ?w = "\<lparr>lw_chainName = ''cosmoshub'',
             lw_changes = \<lparr>chan_buf = replicate 1000 a_change, chan_cap = 1000\<rparr>\<rparr>"
  let ?c = "\<lparr>chan_buf = [a_change, a_change\<lparr>sc_Height := 10\<rparr>], chan_cap = 1000\<rparr>"
  have f: "length (chan_buf (stateChanges full_listener)) = chan_cap (stateChanges full_listener)"
    by (simp add: full_listener_def)
  have e: "length (chan_buf (stateChanges (NewStateListener empty_db))) <
             chan_cap (stateChanges (NewStateListener empty_db))"
    by (simp add: NewStateListener_def make_chan_def)
  have w: "map_of (workers full_listener) (sc_ChainName a_change) = Some ?w \<and>
           length (chan_buf (lw_changes ?w)) = chan_cap (lw_changes ?w)"
    by (simp add: full_listener_def a_change_def)
  have c: "chan_buf ?c = a_change # [a_change\<lparr>sc_Height := 10\<rparr>]" by simp
  note t1 = full_queue_drops_the_incoming_change
    [of full_listener "''cosmoshub''" "''bank''" "''balances/addrX/uatom''" "''5''" False 9 3
        a_change ?w ?c a_change "[a_change\<lparr>sc_Height := 10\<rparr>]"]
  note t2 = full_queue_drops_the_incoming_change
    [of "NewStateListener empty_db" "''cosmoshub''" "''bank''" "''balances/addrX/uatom''" "''5''"
        False 9 3 a_change ?w ?c a_change "[a_change\<lparr>sc_Height := 10\<rparr>]"]
  from t1 f have 1: "OnStateChange full_listener ''cosmoshub'' ''bank'' ''balances/addrX/uatom''
      ''5'' False 9 3 = full_listener\<lparr>sl_log := sl_log full_listener @
              [Log WarnLevel ''State change channel full, dropping change''
                 [String ''chain'' ''cosmoshub'', String ''store'' ''bank'', Int64 ''height'' 9]]\<rparr>"
    by blast
  from t2 e have 2: "OnStateChange (NewStateListener empty_db) ''cosmoshub'' ''bank''
      ''balances/addrX/uatom'' ''5'' False 9 3 =
      (NewStateListener empty_db)\<lparr>stateChanges := (stateChanges (NewStateListener empty_db))
              \<lparr>chan_buf := chan_buf (stateChanges (NewStateListener empty_db)) @
                 [\<lparr>sc_ChainName = ''cosmoshub'', sc_StoreKey = ''bank'',
                   sc_Key = ''balances/addrX/uatom'', sc_Value = ''5'',
                   sc_Delete = False, sc_Height = 9, sc_Timestamp = 3\<rparr>]\<rparr>\<rparr>"
    by blast
  from t1 w have 3: "route_change full_listener a_change =
        full_listener\<lparr>sl_log := sl_log full_listener @
              [Log WarnLevel ''Worker channel full'' [String ''chain'' (sc_ChainName a_change)]]\<rparr>"
    by blast
  from t1 c have 4: "try_recv ?c = Some (a_change, ?c\<lparr>chan_buf := [a_change\<lparr>sc_Height := 10\<rparr>]\<rparr>)"
    by blast
  show ?thesis
    unfolding 1 2 3 4
    by (simp add: full_listener_def NewStateListener_def make_chan_def a_change_def)
qed

text \<open>
  C5 as stated fails on the counter and on the result: a change offered to the full
  queue leaves the listener equal to what it was with one warning line added to the
  log. The function has no result to be false, and no quantity read from the listener
  apart from its log goes up by one.
\<close>

theorem full_queue_only_logs:
  "OnStateChange full_listener ''cosmoshub'' ''bank'' ''balances/addrX/uatom'' ''5'' False 9 3 =
     full_listener\<lparr>sl_log :=
       [Log WarnLevel ''State change channel full, dropping change''
          [String ''chain'' ''cosmoshub'', String ''store'' ''bank'', Int64 ''height'' 9]]\<rparr> \<and>
   \<not> (\<exists>dropped :: StateListener \<Rightarrow> nat.
         (\<forall>s l. dropped (s\<lparr>sl_log := l\<rparr>) = dropped s) \<and>
         dropped (OnStateChange full_listener ''cosmoshub'' ''bank'' ''balances/addrX/uatom'' ''5''
                    False 9 3) = Suc (dropped full_listener))"
proof -
  let ?l = "[Log WarnLevel ''State change channel full, dropping change''
              [String ''chain'' ''cosmoshub'', String ''store'' ''bank'', Int64 ''height'' 9]]"
  have eq: "OnStateChange full_listener ''cosmoshub'' ''bank'' ''balances/addrX/uatom'' ''5''
              False 9 3 = full_listener\<lparr>sl_log := ?l\<rparr>"
    by (simp add: OnStateChange_def try_send_def full_listener_def NewStateListener_def
        make_chan_def)
  have "\<not> (\<exists>dropped :: StateListener \<Rightarrow> nat.
         (\<forall>s l. dropped (s\<lparr>sl_log := l\<rparr>) = dropped s) \<and>
         dropped (full_listener\<lparr>sl_log := ?l\<rparr>) = Suc (dropped full_listener))"
  proof
    assume "\<exists>dropped :: StateListener \<Rightarrow> nat.
         (\<forall>s l. dropped (s\<lparr>sl_log := l\<rparr>) = dropped s) \<and>
         dropped (full_listener\<lparr>sl_log := ?l\<rparr>) = Suc (dropped full_listener)"
    then obtain dropped :: "StateListener \<Rightarrow> nat"
      where a: "\<forall>s l. dropped (s\<lparr>sl_log := l\<rparr>) = dropped s"
        and b: "dropped (full_listener\<lparr>sl_log := ?l\<rparr>) = Suc (dropped full_listener)"
      by blast
    from a have "dropped (full_listener\<lparr>sl_log := ?l\<rparr>) = dropped full_listener" by blast
    with b show False by simp
  qed
  with eq show ?thesis by simp
qed

end
